theory Spec2Isabelle
  imports Main "HOL-Library.AList"
begin

section \<open>The chat relay of backend/socket/socketHandler.js\<close>

text \<open>
  The relay is one Node.js process: a socket.io server whose connection callback
  (\<open>handleConnection\<close>) registers one handler per inbound frame. The embedding runs each
  frame handler and the disconnect handler as one atomic step on an explicit server state
  and returns the frames the handler emits. The connection callback registers the
  handlers only after its two awaits, so it runs in the stages into which the awaits cut
  it: until its last stage has run, the socket is connected but nothing listens to its
  frames or to its disconnect. Three things the handlers rely on are not JavaScript of
  this file and are written out here:
  \<^item> socket.io: the connected sockets and their rooms. \<open>socket.emit\<close> reaches the socket
    itself, \<open>socket.broadcast.emit\<close> every other connected socket, \<open>io.to(room).emit\<close>
    every socket in the room and \<open>socket.to(room).emit\<close> every socket in the room but the
    emitting one. A socket is in the room named by its own id from the start and leaves
    all rooms when it disconnects.
  \<^item> the MongoDB collections behind the Mongoose models \<open>User\<close>, \<open>Chat\<close> and
    \<open>Message\<close>, as association lists (users, chats) and as a list in insertion order
    (messages, a document's \<open>_id\<close> being its position).
  \<^item> the clock: every \<open>new Date()\<close> of a handler is a reading handed to it.
\<close>

subsection \<open>Data\<close>

type_synonym uid = string
type_synonym cid = string
type_synonym sid = string
type_synonym mid = nat
type_synonym time = nat

text \<open>The fields of a \<open>User\<close> document that the relay reads or writes.\<close>

record user_doc =
  username :: string
  avatar :: string
  isOnline :: bool
  lastSeen :: time

text \<open>The fields of a \<open>Chat\<close> document that the relay reads or writes.\<close>

record chat_doc =
  participants :: "uid list"
  lastMessage :: "mid option"
  lastActivity :: time

text \<open>An element of \<open>readBy\<close>; \<open>readAt\<close> is absent when nobody has set it.\<close>

record read_entry =
  user :: uid
  readAt :: "time option"

record message_doc =
  chat :: cid
  sender :: uid
  content :: string
  messageType :: string
  readBy :: "read_entry list"

text \<open>
  A connected socket: \<open>socket.userId\<close> and \<open>socket.user\<close> as \<open>socketAuth\<close> has set them,
  and the rooms socket.io holds for it.
\<close>

record socket =
  userId :: uid
  socket_user :: user_doc
  rooms :: "string set"

text \<open>A value of the \<open>activeUsers\<close> map.\<close>

record active_entry =
  socketId :: sid
  entry_user :: user_doc

text \<open>
  Where the connection callback of a socket stands: suspended at
  \<open>await User.findByIdAndUpdate\<close>, suspended at \<open>await Chat.find\<close>, or ended by a
  rejected storage call (the callback has no \<open>try\<close>) before it has registered a handler.
\<close>

datatype stage = AwaitingUpdate | AwaitingFind | Aborted

text \<open>
  A socket that socket.io has accepted and whose handlers are not registered: its identity
  as \<open>socketAuth\<close> has set it, the \<open>lastSeen\<close> that the callback has handed to the
  pending update, the stage of the callback, and whether the socket is still connected.
  Such a socket is in the room named by its own id and in no other.
\<close>

record pending_socket =
  p_userId :: uid
  p_user :: user_doc
  p_lastSeen :: time
  p_stage :: stage
  p_open :: bool

text \<open>
  \<open>activeUsers\<close> is a JavaScript \<open>Map\<close>: \<open>set\<close> replaces the value of a key that is
  present and appends a new key at the end, which is \<open>AList.update\<close>; \<open>delete\<close> is
  \<open>AList.delete\<close>. \<open>sockets\<close> holds the connected sockets whose handlers are
  registered, \<open>pending\<close> the sockets whose connection callback has not registered them.
\<close>

record server =
  activeUsers :: "(uid \<times> active_entry) list"
  sockets :: "(sid \<times> socket) list"
  pending :: "(sid \<times> pending_socket) list"
  users :: "(uid \<times> user_doc) list"
  chats :: "(cid \<times> chat_doc) list"
  messages :: "message_doc list"

text \<open>What \<open>populate('sender', 'username avatar')\<close> puts in place of the sender's id.\<close>

record populated_sender =
  ps_id :: uid
  ps_username :: string
  ps_avatar :: string

text \<open>
  Outbound frames with their payloads. \<open>NewMessage\<close> carries the saved document, its id and
  the populated sender (\<open>None\<close> is the \<open>null\<close> that populate leaves when the user document
  is gone).
\<close>

datatype frame =
    UserOnline uid string
  | UserOffline uid string time
  | NewMessage mid message_doc "populated_sender option"
  | UserTyping uid string bool
  | MessageRead mid uid time
  | OnlineUsers "populated_sender list"
  | ErrorFrame string

text \<open>One \<open>emit\<close>: the sockets it reaches, in the order of the socket table, and the frame.\<close>

record emission =
  recipients :: "sid list"
  payload :: frame

text \<open>
  The storage calls of the handlers; \<open>failing\<close> names the calls that reject during one
  step.
\<close>

datatype db_op =
    UserFindByIdAndUpdate | ChatFind
  | ChatFindOne | MessageSave | ChatSave | MessageFindById | MessageFindByIdAndUpdate

datatype exn = ValidationError | StorageError db_op

text \<open>
  What one run of a handler gets from outside: the first and the second reading of the
  clock (the handlers read it at most twice) and the storage calls that reject.
\<close>

record env =
  now :: time
  now2 :: time
  failing :: "db_op set"

text \<open>
  The \<open>Message\<close> schema lives in backend/models/Message.js. The handlers use two things of
  it: the validation that \<open>save\<close> runs, and the default of \<open>readAt\<close> for a \<open>readBy\<close>
  element built without one (given the time of construction).
\<close>

record message_schema =
  validator :: "message_doc \<Rightarrow> bool"
  readAt_default :: "time \<Rightarrow> time option"

subsection \<open>Constants of shared/types.js\<close>

definition MESSAGE_TYPES :: "string list" where
  "MESSAGE_TYPES = [''text'', ''image'', ''file'']"

definition MESSAGE_MAX_LENGTH :: nat where
  "MESSAGE_MAX_LENGTH = 1000"

definition TYPING_TIMEOUT :: nat where
  "TYPING_TIMEOUT = 1000"

text \<open>
  Modelled from the spec: the schema of backend/models/Message.js, which is not among the
  sources. The spec rejects a send whose content is empty or longer than the maximum
  length, or whose type is not a recognized kind, and initialises \<open>readBy\<close> with the
  sender and the current time.
\<close>

definition Message_schema :: message_schema where
  "Message_schema =
     \<lparr>validator = (\<lambda>m. content m \<noteq> [] \<and> length (content m) \<le> MESSAGE_MAX_LENGTH
                        \<and> messageType m \<in> set MESSAGE_TYPES),
      readAt_default = Some\<rparr>"

subsection \<open>socket.io operations\<close>

definition socket_emit :: "sid \<Rightarrow> frame \<Rightarrow> emission" where
  "socket_emit i f = \<lparr>recipients = [i], payload = f\<rparr>"

text \<open>The connected sockets: those with handlers, then those still without.\<close>

definition open_pending :: "server \<Rightarrow> sid list" where
  "open_pending s = map fst (filter (\<lambda>p. p_open (snd p)) (pending s))"

definition connected :: "server \<Rightarrow> sid list" where
  "connected s = map fst (sockets s) @ open_pending s"

definition broadcast_emit :: "server \<Rightarrow> sid \<Rightarrow> frame \<Rightarrow> emission" where
  "broadcast_emit s i f =
     \<lparr>recipients = filter (\<lambda>j. j \<noteq> i) (connected s), payload = f\<rparr>"

definition room_members :: "server \<Rightarrow> string \<Rightarrow> sid list" where
  "room_members s room =
     map fst (filter (\<lambda>p. room \<in> rooms (snd p)) (sockets s))
     @ filter (\<lambda>j. j = room) (open_pending s)"

definition io_to :: "server \<Rightarrow> string \<Rightarrow> frame \<Rightarrow> emission" where
  "io_to s room f = \<lparr>recipients = room_members s room, payload = f\<rparr>"

definition socket_to :: "server \<Rightarrow> sid \<Rightarrow> string \<Rightarrow> frame \<Rightarrow> emission" where
  "socket_to s i room f =
     \<lparr>recipients = filter (\<lambda>j. j \<noteq> i) (room_members s room), payload = f\<rparr>"

definition socket_join :: "sid \<Rightarrow> string \<Rightarrow> server \<Rightarrow> server" where
  "socket_join i room s =
     s\<lparr>sockets := AList.map_entry i (\<lambda>k. k\<lparr>rooms := insert room (rooms k)\<rparr>) (sockets s)\<rparr>"

definition socket_leave :: "sid \<Rightarrow> string \<Rightarrow> server \<Rightarrow> server" where
  "socket_leave i room s =
     s\<lparr>sockets := AList.map_entry i (\<lambda>k. k\<lparr>rooms := rooms k - {room}\<rparr>) (sockets s)\<rparr>"

text \<open>The frames one socket receives from a list of emissions, in order.\<close>

definition delivered :: "sid \<Rightarrow> emission list \<Rightarrow> frame list" where
  "delivered i ems = map payload (filter (\<lambda>e. i \<in> set (recipients e)) ems)"

subsection \<open>Storage operations\<close>

text \<open>\<open>User.findByIdAndUpdate(id, fields)\<close>: no document, no change.\<close>

definition User_findByIdAndUpdate ::
  "uid \<Rightarrow> (user_doc \<Rightarrow> user_doc) \<Rightarrow> (uid \<times> user_doc) list \<Rightarrow> (uid \<times> user_doc) list" where
  "User_findByIdAndUpdate u f us = AList.map_entry u f us"

text \<open>\<open>Chat.find({ participants: userId })\<close>.\<close>

definition Chat_find :: "uid \<Rightarrow> (cid \<times> chat_doc) list \<Rightarrow> (cid \<times> chat_doc) list" where
  "Chat_find u cs = filter (\<lambda>c. u \<in> set (participants (snd c))) cs"

text \<open>\<open>Chat.findOne({ _id: chatId, participants: userId })\<close>.\<close>

definition Chat_findOne :: "cid \<Rightarrow> uid \<Rightarrow> (cid \<times> chat_doc) list \<Rightarrow> chat_doc option" where
  "Chat_findOne c u cs =
     (case map_of cs c of
        None \<Rightarrow> None
      | Some d \<Rightarrow> if u \<in> set (participants d) then Some d else None)"

text \<open>MongoDB's \<open>$addToSet\<close>: the value is appended unless an equal element is there.\<close>

definition addToSet :: "'a list \<Rightarrow> 'a \<Rightarrow> 'a list" where
  "addToSet xs x = (if x \<in> set xs then xs else xs @ [x])"

text \<open>\<open>Message.findByIdAndUpdate(id, update)\<close>: no document with that id, no change.\<close>

definition Message_findByIdAndUpdate ::
  "mid \<Rightarrow> (message_doc \<Rightarrow> message_doc) \<Rightarrow> message_doc list \<Rightarrow> message_doc list" where
  "Message_findByIdAndUpdate i f ms = (if i < length ms then ms[i := f (ms ! i)] else ms)"

definition populate :: "(uid \<times> user_doc) list \<Rightarrow> uid \<Rightarrow> populated_sender option" where
  "populate us u =
     (case map_of us u of
        None \<Rightarrow> None
      | Some d \<Rightarrow> Some \<lparr>ps_id = u, ps_username = username d, ps_avatar = avatar d\<rparr>)"

subsection \<open>Authentication and the connection callback\<close>

text \<open>
  \<open>socketAuth\<close>. The argument is what \<open>jwt.verify\<close> decodes from the handshake token:
  \<open>None\<close> when the token is missing or \<open>verify\<close> throws.
\<close>

definition socketAuth :: "uid option \<Rightarrow> server \<Rightarrow> string + (uid \<times> user_doc)" where
  "socketAuth decoded s =
     (case decoded of
        None \<Rightarrow> Inl ''Authentication error''
      | Some u \<Rightarrow>
          (case map_of (users s) u of
             None \<Rightarrow> Inl ''Authentication error''
           | Some d \<Rightarrow> Inr (u, d)))"

text \<open>
  The body of \<open>io.on('connection', ...)\<close> for the socket \<open>i\<close> that socket.io has just
  accepted for user \<open>u\<close>, up to its first \<open>await\<close>: the entry in \<open>activeUsers\<close> is set and
  the update of the user is called with the time read now. No handler is registered yet.
\<close>

definition handleConnection :: "env \<Rightarrow> sid \<Rightarrow> uid \<Rightarrow> user_doc \<Rightarrow> server \<Rightarrow> server \<times> emission list" where
  "handleConnection e i u d s =
     (let s0 = s\<lparr>pending := pending s @
                  [(i, \<lparr>p_userId = u, p_user = d, p_lastSeen = now e,
                        p_stage = AwaitingUpdate, p_open = True\<rparr>)]\<rparr>;
          s1 = s0\<lparr>activeUsers := AList.update u \<lparr>socketId = i, entry_user = d\<rparr> (activeUsers s0)\<rparr>
      in (s1, []))"

text \<open>
  A storage call of the callback rejects: nothing catches it and the callback ends there,
  before the broadcast and before any handler is registered. A socket that is still
  connected stays, with no handler; a closed one is forgotten. What the runtime does with
  the unhandled rejection is no code of the file and is left out.
\<close>

definition handleConnection_abort :: "sid \<Rightarrow> pending_socket \<Rightarrow> server \<Rightarrow> server" where
  "handleConnection_abort i p s =
     (if p_open p
      then s\<lparr>pending := AList.map_entry i (\<lambda>q. q\<lparr>p_stage := Aborted\<rparr>) (pending s)\<rparr>
      else s\<lparr>pending := AList.delete i (pending s)\<rparr>)"

text \<open>
  The callback goes on when the storage call it waits for settles. After the update it
  calls \<open>Chat.find\<close>; after \<open>Chat.find\<close> it joins the rooms of the user's chats,
  broadcasts \<open>userOnline\<close> and registers the handlers, all in one go. It does so also when
  the socket has closed in the meantime: the broadcast still goes out, and the handlers
  are those of a socket that no frame and no disconnect will reach.
\<close>

definition handleConnection_resume ::
  "env \<Rightarrow> sid \<Rightarrow> pending_socket \<Rightarrow> server \<Rightarrow> server \<times> emission list" where
  "handleConnection_resume e i p s =
     (case p_stage p of
        Aborted \<Rightarrow> (s, [])
      | AwaitingUpdate \<Rightarrow>
          if UserFindByIdAndUpdate \<in> failing e then (handleConnection_abort i p s, [])
          else (s\<lparr>users := User_findByIdAndUpdate (p_userId p)
                        (\<lambda>x. x\<lparr>isOnline := True, lastSeen := p_lastSeen p\<rparr>) (users s),
                  pending := AList.map_entry i (\<lambda>q. q\<lparr>p_stage := AwaitingFind\<rparr>) (pending s)\<rparr>,
                [])
      | AwaitingFind \<Rightarrow>
          if ChatFind \<in> failing e then (handleConnection_abort i p s, [])
          else
            let userChats = Chat_find (p_userId p) (chats s);
                s0 = s\<lparr>pending := AList.delete i (pending s)\<rparr>;
                s1 = (if p_open p
                      then s0\<lparr>sockets := sockets s0 @
                             [(i, \<lparr>userId = p_userId p, socket_user = p_user p, rooms = {i}\<rparr>)]\<rparr>
                      else s0);
                s2 = fold (\<lambda>c. socket_join i (fst c)) userChats s1
            in (s2, [broadcast_emit s2 i (UserOnline (p_userId p) (username (p_user p)))]))"

subsection \<open>Frame handlers\<close>

definition joinChat :: "sid \<Rightarrow> cid \<Rightarrow> server \<Rightarrow> server \<times> emission list" where
  "joinChat i chatId s = (socket_join i chatId s, [])"

definition leaveChat :: "sid \<Rightarrow> cid \<Rightarrow> server \<Rightarrow> server \<times> emission list" where
  "leaveChat i chatId s = (socket_leave i chatId s, [])"

text \<open>The payload of a \<open>sendMessage\<close> frame; \<open>messageType\<close> may be left out.\<close>

record send_data =
  sd_chatId :: cid
  sd_content :: string
  sd_messageType :: "string option"

text \<open>\<open>messageType = 'text'\<close> in the destructuring: the default of a field left out.\<close>

definition send_type :: "send_data \<Rightarrow> string" where
  "send_type data = (case sd_messageType data of None \<Rightarrow> ''text'' | Some t \<Rightarrow> t)"

text \<open>
  \<open>new Message({...})\<close>: the document the handler builds. It gives \<open>readBy\<close> one element
  with the sender and no \<open>readAt\<close>, which the schema's default then fills.
\<close>

definition new_Message :: "message_schema \<Rightarrow> env \<Rightarrow> socket \<Rightarrow> send_data \<Rightarrow> message_doc" where
  "new_Message sch e k data =
     \<lparr>chat = sd_chatId data, sender = userId k, content = sd_content data,
      messageType = send_type data,
      readBy = [\<lparr>user = userId k, readAt = readAt_default sch (now e)\<rparr>]\<rparr>"

text \<open>
  The \<open>try\<close> block of the \<open>sendMessage\<close> handler: how it ends (\<open>Inl\<close> an exception thrown,
  \<open>Inr\<close> a return), the state it leaves and what it has emitted. The lines after the
  broadcast only count offline participants for a log line.
\<close>

definition sendMessage_try ::
  "message_schema \<Rightarrow> env \<Rightarrow> sid \<Rightarrow> socket \<Rightarrow> send_data \<Rightarrow> server
     \<Rightarrow> (exn + unit) \<times> server \<times> emission list" where
  "sendMessage_try sch e i k data s =
     (let chatId = sd_chatId data
      in if ChatFindOne \<in> failing e then (Inl (StorageError ChatFindOne), s, [])
         else case Chat_findOne chatId (userId k) (chats s) of
           None \<Rightarrow> (Inr (), s, [socket_emit i (ErrorFrame ''Chat not found'')])
         | Some ch \<Rightarrow>
             let message = new_Message sch e k data
             in if \<not> validator sch message then (Inl ValidationError, s, [])
                else if MessageSave \<in> failing e then (Inl (StorageError MessageSave), s, [])
                else
                  let m = length (messages s);
                      s1 = s\<lparr>messages := messages s @ [message]\<rparr>;
                      ch' = ch\<lparr>lastMessage := Some m, lastActivity := now2 e\<rparr>
                  in if ChatSave \<in> failing e then (Inl (StorageError ChatSave), s1, [])
                     else
                       let s2 = s1\<lparr>chats := AList.update chatId ch' (chats s1)\<rparr>
                       in if MessageFindById \<in> failing e
                          then (Inl (StorageError MessageFindById), s2, [])
                          else (Inr (), s2,
                                [io_to s2 chatId
                                   (NewMessage m message (populate (users s2) (userId k)))]))"

text \<open>The handler: the \<open>catch\<close> block tells the sender, and only the sender.\<close>

definition sendMessage ::
  "message_schema \<Rightarrow> env \<Rightarrow> sid \<Rightarrow> socket \<Rightarrow> send_data \<Rightarrow> server \<Rightarrow> server \<times> emission list" where
  "sendMessage sch e i k data s =
     (case sendMessage_try sch e i k data s of
        (Inl err, s', ems) \<Rightarrow> (s', ems @ [socket_emit i (ErrorFrame ''Failed to send message'')])
      | (Inr u, s', ems) \<Rightarrow> (s', ems))"

definition typing :: "sid \<Rightarrow> socket \<Rightarrow> cid \<Rightarrow> bool \<Rightarrow> server \<Rightarrow> server \<times> emission list" where
  "typing i k chatId isTyping s =
     (s, [socket_to s i chatId (UserTyping (userId k) (username (socket_user k)) isTyping)])"

text \<open>The \<open>try\<close> block of the \<open>markAsRead\<close> handler; it reads the clock twice.\<close>

definition markAsRead_try ::
  "env \<Rightarrow> sid \<Rightarrow> socket \<Rightarrow> mid \<Rightarrow> cid \<Rightarrow> server \<Rightarrow> (exn + unit) \<times> server \<times> emission list" where
  "markAsRead_try e i k messageId chatId s =
     (if MessageFindByIdAndUpdate \<in> failing e
      then (Inl (StorageError MessageFindByIdAndUpdate), s, [])
      else
        let s1 = s\<lparr>messages := Message_findByIdAndUpdate messageId
                     (\<lambda>m. m\<lparr>readBy := addToSet (readBy m)
                                         \<lparr>user = userId k, readAt = Some (now e)\<rparr>\<rparr>)
                     (messages s)\<rparr>
        in (Inr (), s1, [socket_to s1 i chatId (MessageRead messageId (userId k) (now2 e))]))"

text \<open>The handler: the \<open>catch\<close> block only logs.\<close>

definition markAsRead ::
  "env \<Rightarrow> sid \<Rightarrow> socket \<Rightarrow> mid \<Rightarrow> cid \<Rightarrow> server \<Rightarrow> server \<times> emission list" where
  "markAsRead e i k messageId chatId s =
     (case markAsRead_try e i k messageId chatId s of (r, s', ems) \<Rightarrow> (s', ems))"

text \<open>
  The \<open>disconnect\<close> handler of a socket whose handlers are registered. socket.io has
  taken the socket out of the socket table, and so out of every room, before the handler
  runs. The handler has no \<open>try\<close>: when the update of the user rejects, it ends before the
  broadcast.
\<close>

definition disconnect :: "env \<Rightarrow> sid \<Rightarrow> socket \<Rightarrow> server \<Rightarrow> server \<times> emission list" where
  "disconnect e i k s =
     (let s0 = s\<lparr>sockets := AList.delete i (sockets s)\<rparr>;
          s1 = s0\<lparr>activeUsers := AList.delete (userId k) (activeUsers s0)\<rparr>
      in if UserFindByIdAndUpdate \<in> failing e then (s1, [])
         else
           let s2 = s1\<lparr>users := User_findByIdAndUpdate (userId k)
                      (\<lambda>x. x\<lparr>isOnline := False, lastSeen := now e\<rparr>) (users s1)\<rparr>
           in (s2, [broadcast_emit s2 i
                      (UserOffline (userId k) (username (socket_user k)) (now2 e))]))"

text \<open>
  A socket closes before its handlers are registered: socket.io takes it out, and no code
  of the file runs. The connection callback, if it is still under way, goes on later.
\<close>

definition close_pending :: "sid \<Rightarrow> pending_socket \<Rightarrow> server \<Rightarrow> server" where
  "close_pending i p s =
     (if p_stage p = Aborted
      then s\<lparr>pending := AList.delete i (pending s)\<rparr>
      else s\<lparr>pending := AList.map_entry i (\<lambda>q. q\<lparr>p_open := False\<rparr>) (pending s)\<rparr>)"

definition getOnlineUsers :: "sid \<Rightarrow> server \<Rightarrow> server \<times> emission list" where
  "getOnlineUsers i s =
     (s, [socket_emit i (OnlineUsers (map (\<lambda>p. \<lparr>ps_id = fst p,
                                               ps_username = username (entry_user (snd p)),
                                               ps_avatar = avatar (entry_user (snd p))\<rparr>)
                                        (activeUsers s)))])"

subsection \<open>The server as a transition system\<close>

datatype client_frame =
    JoinChat cid
  | LeaveChat cid
  | SendMessage send_data
  | Typing cid bool
  | MarkAsRead mid cid
  | GetOnlineUsers

text \<open>
  What can happen to the server: a connection attempt (with what the token decodes to),
  the settling of the storage call that the connection callback of a socket waits for, a
  frame from a socket, a disconnect, and time passing with nothing arriving. The file sets
  no timer, so no code runs when time passes.
\<close>

datatype event =
    Connect sid "uid option"
  | Resume sid
  | Frame sid client_frame
  | Disconnect sid
  | Elapse nat

fun dispatch ::
  "message_schema \<Rightarrow> env \<Rightarrow> sid \<Rightarrow> socket \<Rightarrow> client_frame \<Rightarrow> server \<Rightarrow> server \<times> emission list" where
  "dispatch sch e i k (JoinChat c) s = joinChat i c s"
| "dispatch sch e i k (LeaveChat c) s = leaveChat i c s"
| "dispatch sch e i k (SendMessage d) s = sendMessage sch e i k d s"
| "dispatch sch e i k (Typing c b) s = typing i k c b s"
| "dispatch sch e i k (MarkAsRead m c) s = markAsRead e i k m c s"
| "dispatch sch e i k GetOnlineUsers s = getOnlineUsers i s"

text \<open>
  One step. A connection that fails \<open>socketAuth\<close> never reaches the callback; socket ids
  are unique, so an attempt under an id in use is no event of the system; a frame of a
  socket whose handlers are not registered finds no handler and is dropped, and so is
  its disconnect, which only closes it.
\<close>

fun step :: "message_schema \<Rightarrow> env \<Rightarrow> event \<Rightarrow> server \<Rightarrow> server \<times> emission list" where
  "step sch e (Connect i decoded) s =
     (if i \<in> fst ` set (sockets s) \<or> i \<in> fst ` set (pending s) then (s, [])
      else case socketAuth decoded s of
             Inl err \<Rightarrow> (s, [])
           | Inr (u, d) \<Rightarrow> handleConnection e i u d s)"
| "step sch e (Resume i) s =
     (case map_of (pending s) i of
        None \<Rightarrow> (s, [])
      | Some p \<Rightarrow> handleConnection_resume e i p s)"
| "step sch e (Frame i f) s =
     (case map_of (sockets s) i of
        None \<Rightarrow> (s, [])
      | Some k \<Rightarrow> dispatch sch e i k f s)"
| "step sch e (Disconnect i) s =
     (case map_of (sockets s) i of
        None \<Rightarrow>
          (case map_of (pending s) i of
             None \<Rightarrow> (s, [])
           | Some p \<Rightarrow> (close_pending i p s, []))
      | Some k \<Rightarrow> disconnect e i k s)"
| "step sch e (Elapse n) s = (s, [])"

text \<open>A run: the events in order, each with its environment; the emissions accumulate.\<close>

fun run :: "message_schema \<Rightarrow> (env \<times> event) list \<Rightarrow> server \<Rightarrow> server \<times> emission list" where
  "run sch [] s = (s, [])"
| "run sch (x # xs) s =
     (case step sch (fst x) (snd x) s of
        (s', ems) \<Rightarrow> (case run sch xs s' of (s'', ems') \<Rightarrow> (s'', ems @ ems')))"

subsection \<open>Notions of the specification\<close>

text \<open>The identity is in the participant list of the stored conversation.\<close>

definition is_participant :: "server \<Rightarrow> cid \<Rightarrow> uid \<Rightarrow> bool" where
  "is_participant s c u =
     (case map_of (chats s) c of None \<Rightarrow> False | Some d \<Rightarrow> u \<in> set (participants d))"

text \<open>The content and type rules of a send request, with the constants of shared/types.js.\<close>

definition invalid_send :: "send_data \<Rightarrow> bool" where
  "invalid_send data =
     (sd_content data = [] \<or> MESSAGE_MAX_LENGTH < length (sd_content data)
      \<or> send_type data \<notin> set MESSAGE_TYPES)"



fun is_typing_false :: "frame \<Rightarrow> bool" where
  "is_typing_false (UserTyping v n b) = (\<not> b)"
| "is_typing_false f = False"

text \<open>How many of the emitted events satisfy a test, whoever receives them.\<close>

definition count_events :: "(frame \<Rightarrow> bool) \<Rightarrow> emission list \<Rightarrow> nat" where
  "count_events P ems = length (filter (\<lambda>e. P (payload e)) ems)"




fun count_steps ::
  "(event \<Rightarrow> server \<Rightarrow> bool) \<Rightarrow> message_schema \<Rightarrow> (env \<times> event) list \<Rightarrow> server \<Rightarrow> nat" where
  "count_steps P sch [] s = 0"
| "count_steps P sch (x # xs) s =
     (if P (snd x) s then 1 else 0) + count_steps P sch xs (fst (step sch (fst x) (snd x) s))"

text \<open>The steps that are a \<open>typing\<close> frame with the negative state from a connected socket.\<close>

fun typing_false_frame :: "event \<Rightarrow> server \<Rightarrow> bool" where
  "typing_false_frame (Frame i (Typing c b)) s = (\<not> b \<and> i \<in> fst ` set (sockets s))"
| "typing_false_frame ev s = False"

text \<open>A stretch of time in which nothing arrives.\<close>

definition silence :: "(env \<times> nat) list \<Rightarrow> (env \<times> event) list" where
  "silence xs = map (\<lambda>x. (fst x, Elapse (snd x))) xs"

subsection \<open>Concrete scenarios\<close>

text \<open>An environment in which both clock readings are \<open>t\<close> and every storage call answers.\<close>

definition at :: "time \<Rightarrow> env" where
  "at t = \<lparr>now = t, now2 = t, failing = {}\<rparr>"

definition alice :: user_doc where
  "alice = \<lparr>username = ''alice'', avatar = ''a.png'', isOnline = False, lastSeen = 0\<rparr>"

definition bob :: user_doc where
  "bob = \<lparr>username = ''bob'', avatar = ''b.png'', isOnline = False, lastSeen = 0\<rparr>"

definition carol :: user_doc where
  "carol = \<lparr>username = ''carol'', avatar = ''c.png'', isOnline = False, lastSeen = 0\<rparr>"

text \<open>
  A database with three users and one conversation, \<open>c1\<close>, between A and B; nobody is
  connected.
\<close>

definition demo_db :: server where
  "demo_db =
     \<lparr>activeUsers = [], sockets = [], pending = [],
      users = [(''A'', alice), (''B'', bob), (''C'', carol)],
      chats = [(''c1'', \<lparr>participants = [''A'', ''B''], lastMessage = None, lastActivity = 0\<rparr>)],
      messages = []\<rparr>"


text \<open>B, A on two devices, and C connect, each callback running to its end.\<close>

definition connects :: "(env \<times> event) list" where
  "connects =
     [(at 1, Connect ''sB'' (Some ''B'')), (at 1, Resume ''sB''), (at 1, Resume ''sB''),
      (at 2, Connect ''s1'' (Some ''A'')), (at 2, Resume ''s1''), (at 2, Resume ''s1''),
      (at 3, Connect ''s2'' (Some ''A'')), (at 3, Resume ''s2''), (at 3, Resume ''s2''),
      (at 4, Connect ''sC'' (Some ''C'')), (at 4, Resume ''sC''), (at 4, Resume ''sC'')]"

text \<open>The state those four connections lead to.\<close>

definition live :: server where
  "live =
     \<lparr>activeUsers = [(''B'', \<lparr>socketId = ''sB'', entry_user = bob\<rparr>),
                     (''A'', \<lparr>socketId = ''s2'',
                             entry_user = alice\<lparr>isOnline := True, lastSeen := 2\<rparr>\<rparr>),
                     (''C'', \<lparr>socketId = ''sC'', entry_user = carol\<rparr>)],
      sockets = [(''sB'', \<lparr>userId = ''B'', socket_user = bob, rooms = {''c1'', ''sB''}\<rparr>),
                 (''s1'', \<lparr>userId = ''A'', socket_user = alice, rooms = {''c1'', ''s1''}\<rparr>),
                 (''s2'', \<lparr>userId = ''A'', socket_user = alice\<lparr>isOnline := True, lastSeen := 2\<rparr>,
                          rooms = {''c1'', ''s2''}\<rparr>),
                 (''sC'', \<lparr>userId = ''C'', socket_user = carol, rooms = {''sC''}\<rparr>)],
      pending = [],
      users = [(''A'', alice\<lparr>isOnline := True, lastSeen := 3\<rparr>),
               (''B'', bob\<lparr>isOnline := True, lastSeen := 1\<rparr>),
               (''C'', carol\<lparr>isOnline := True, lastSeen := 4\<rparr>)],
      chats = [(''c1'', \<lparr>participants = [''A'', ''B''], lastMessage = None, lastActivity = 0\<rparr>)],
      messages = []\<rparr>"

text \<open>
  From \<open>live\<close>, A connects on a third device; the update of the user has answered and
  the callback waits for \<open>Chat.find\<close>.
\<close>

definition third_device :: pending_socket where
  "third_device =
     \<lparr>p_userId = ''A'', p_user = alice\<lparr>isOnline := True, lastSeen := 3\<rparr>, p_lastSeen = 6,
      p_stage = AwaitingFind, p_open = True\<rparr>"

definition joining :: server where
  "joining =
     live\<lparr>activeUsers :=
            [(''B'', \<lparr>socketId = ''sB'', entry_user = bob\<rparr>),
             (''A'', \<lparr>socketId = ''s3'',
                     entry_user = alice\<lparr>isOnline := True, lastSeen := 3\<rparr>\<rparr>),
             (''C'', \<lparr>socketId = ''sC'', entry_user = carol\<rparr>)],
          pending := [(''s3'', third_device)],
          users := [(''A'', alice\<lparr>isOnline := True, lastSeen := 6\<rparr>),
                    (''B'', bob\<lparr>isOnline := True, lastSeen := 1\<rparr>),
                    (''C'', carol\<lparr>isOnline := True, lastSeen := 4\<rparr>)]\<rparr>"

text \<open>
  A connects while B watches and closes the connection before the callback has
  registered the handlers; the callback then runs to its end.
\<close>

definition closes_early :: "(env \<times> event) list" where
  "closes_early =
     [(at 1, Connect ''sB'' (Some ''B'')), (at 1, Resume ''sB''), (at 1, Resume ''sB''),
      (at 2, Connect ''s1'' (Some ''A'')),
      (at 3, Disconnect ''s1''),
      (at 4, Resume ''s1''), (at 5, Resume ''s1'')]"

text \<open>A sends "hi" into \<open>c1\<close>; B marks it read at time 20 and again at time 30.\<close>

definition hi :: send_data where
  "hi = \<lparr>sd_chatId = ''c1'', sd_content = ''hi'', sd_messageType = None\<rparr>"

definition mark_twice :: "(env \<times> event) list" where
  "mark_twice =
     [(at 10, Frame ''s1'' (SendMessage hi)),
      (at 20, Frame ''sB'' (MarkAsRead 0 ''c1'')),
      (at 30, Frame ''sB'' (MarkAsRead 0 ''c1''))]"

text \<open>A starts typing in \<open>c1\<close>; then five seconds pass in which nothing arrives.\<close>

definition typing_then_silence :: "(env \<times> event) list" where
  "typing_then_silence =
     [(at 10, Frame ''s1'' (Typing ''c1'' True)),
      (at 5010, Elapse 5000)]"

text \<open>A send request with empty content.\<close>

definition empty_send :: send_data where
  "empty_send = \<lparr>sd_chatId = ''c1'', sd_content = [], sd_messageType = None\<rparr>"

section \<open>Properties\<close>

subsection \<open>Auxiliary facts\<close>

lemmas handler_defs = handleConnection_def handleConnection_resume_def
  handleConnection_abort_def disconnect_def close_pending_def socketAuth_def broadcast_emit_def
  connected_def open_pending_def User_findByIdAndUpdate_def Chat_find_def socket_join_def socket_leave_def room_members_def
  io_to_def socket_to_def socket_emit_def joinChat_def leaveChat_def sendMessage_def
  sendMessage_try_def typing_def markAsRead_def markAsRead_try_def getOnlineUsers_def
  Chat_findOne_def addToSet_def Message_findByIdAndUpdate_def populate_def new_Message_def
  send_type_def Message_schema_def MESSAGE_TYPES_def MESSAGE_MAX_LENGTH_def

lemmas demo_defs = at_def alice_def bob_def carol_def demo_db_def live_def

text \<open>The state \<open>live\<close> is the one the four connections of \<open>connects\<close> produce.\<close>

lemma live_reachable: "fst (run Message_schema connects demo_db) = live"
  by (simp add: connects_def handler_defs demo_defs Let_def)

text \<open>The state \<open>joining\<close> is reached from \<open>live\<close> when A connects on a third device.\<close>

lemma joining_reachable:
  "fst (run Message_schema [(at 6, Connect ''s3'' (Some ''A'')), (at 7, Resume ''s3'')] live)
     = joining"
  by (simp add: joining_def third_device_def handler_defs demo_defs Let_def)






lemma count_events_append:
  "count_events P (xs @ ys) = count_events P xs + count_events P ys"
  by (simp add: count_events_def)

text \<open>Counting along a run: what holds of every step adds up.\<close>

lemma run_count:
  assumes each: "\<And>e ev s. count_events P (snd (step sch e ev s)) = (if Q ev s then 1 else 0)"
  shows "count_events P (snd (run sch tr s)) = count_steps Q sch tr s"
proof (induction tr arbitrary: s)
  case Nil
  then show ?case by (simp add: count_events_def)
next
  case (Cons x tr)
  obtain s' ems where st: "step sch (fst x) (snd x) s = (s', ems)"
    by (cases "step sch (fst x) (snd x) s") auto
  obtain s'' ems' where rn: "run sch tr s' = (s'', ems')"
    by (cases "run sch tr s'") auto
  have "count_events P ems = (if Q (snd x) s then 1 else 0)"
    using each [of "fst x" "snd x" s] st by simp
  moreover have "count_events P ems' = count_steps Q sch tr s'"
    using Cons.IH [of s'] rn by simp
  ultimately show ?case using st rn by (simp add: count_events_append)
qed


subsection \<open>Presence events\<close>












text \<open>
  A connection that closes before its callback has registered the handlers: in the run
  \<open>closes_early\<close> one \<open>userOnline\<close> event for A is emitted, when the callback ends, and no
  \<open>userOffline\<close> event.
\<close>

lemma closes_early_online_only:
  "map payload (snd (run Message_schema closes_early demo_db)) =
     [UserOnline ''B'' ''bob'', UserOnline ''A'' ''alice'']"
  by (simp add: closes_early_def handler_defs demo_defs Let_def)



subsection \<open>Read receipts are stored per reading of the clock\<close>

text \<open>
  The element that \<open>markAsRead\<close> hands to \<open>$addToSet\<close> carries the time of the call.
  With the same reading of the clock a second call changes nothing; with a new reading the
  element is new and is appended, whatever the list already holds for the user.
\<close>

lemma markAsRead_same_reading_idempotent:
  "fst (markAsRead e i k m c (fst (markAsRead e i k m c s))) = fst (markAsRead e i k m c s)"
  by (simp add: markAsRead_def markAsRead_try_def Message_findByIdAndUpdate_def addToSet_def
      Let_def)

lemma markAsRead_new_reading_appends:
  assumes "m < length (messages s)"
    and "\<lparr>user = userId k, readAt = Some (now e)\<rparr> \<notin> set (readBy (messages s ! m))"
    and "MessageFindByIdAndUpdate \<notin> failing e"
  shows "readBy (messages (fst (markAsRead e i k m c s)) ! m)
           = readBy (messages s ! m) @ [\<lparr>user = userId k, readAt = Some (now e)\<rparr>]"
  using assms
  by (simp add: markAsRead_def markAsRead_try_def Message_findByIdAndUpdate_def addToSet_def
      Let_def)

text \<open>
  Claim C2 says that marking the same message read twice by the same user leaves one
  \<open>readBy\<close> entry for that user. In the run \<open>mark_twice\<close>, A sends a message at time 10
  and B marks it read at time 20 and again at time 30: the stored \<open>readBy\<close> then holds two
  entries for B.
\<close>

theorem mark_twice_two_entries:
  "readBy (messages (fst (run Message_schema mark_twice live)) ! 0) =
     [\<lparr>user = ''A'', readAt = Some 10\<rparr>,
      \<lparr>user = ''B'', readAt = Some 20\<rparr>,
      \<lparr>user = ''B'', readAt = Some 30\<rparr>]"
  by (simp add: mark_twice_def hi_def handler_defs demo_defs Let_def)

subsection \<open>Rejected sends\<close>

text \<open>
  Claim C3: a send by a socket whose identity is not a participant of the target
  conversation (or whose target does not exist), when the lookup answers, ends with the
  frame \<open>error {message: 'Chat not found'}\<close> to the sending socket alone and leaves the
  whole state as it was: no message is stored, the conversation is not touched, and no
  \<open>newMessage\<close> is emitted.
\<close>

theorem sendMessage_non_participant_rejected:
  assumes conn: "map_of (sockets s) i = Some k"
    and out: "\<not> is_participant s (sd_chatId data) (userId k)"
    and answers: "ChatFindOne \<notin> failing e"
  shows "step sch e (Frame i (SendMessage data)) s =
           (s, [\<lparr>recipients = [i], payload = ErrorFrame ''Chat not found''\<rparr>])"
proof -
  have "Chat_findOne (sd_chatId data) (userId k) (chats s) = None"
    using out by (auto simp add: is_participant_def Chat_findOne_def split: option.splits)
  then show ?thesis
    using conn answers by (simp add: sendMessage_def sendMessage_try_def socket_emit_def Let_def)
qed

text \<open>Claim C3 at the state \<open>live\<close>: C, who is not in \<open>c1\<close>, sends "hi" into it.\<close>

theorem sendMessage_non_participant_rejected_witness:
  "map_of (sockets live) ''sC'' = Some \<lparr>userId = ''C'', socket_user = carol, rooms = {''sC''}\<rparr>
   \<and> \<not> is_participant live ''c1'' ''C''
   \<and> ChatFindOne \<notin> failing (at 10)
   \<and> step Message_schema (at 10) (Frame ''sC'' (SendMessage hi)) live =
        (live, [\<lparr>recipients = [''sC''], payload = ErrorFrame ''Chat not found''\<rparr>])"
  using sendMessage_non_participant_rejected [of live "''sC''"
      "\<lparr>userId = ''C'', socket_user = carol, rooms = {''sC''}\<rparr>" hi "at 10" Message_schema]
  by (simp add: live_def is_participant_def at_def hi_def)

text \<open>
  Claim C4 says that every send with empty content, content over 1000 characters or an
  unrecognized type is rejected with a ValidationError. The handler validates nothing
  itself: the schema validates when the document is saved, after the participant check.
  When C, who is not in \<open>c1\<close>, sends empty content into it, the \<open>try\<close> block returns
  without an exception and the frame is \<open>'Chat not found'\<close>.
\<close>

theorem empty_send_by_outsider_not_found:
  "invalid_send empty_send
   \<and> fst (sendMessage_try Message_schema (at 10) ''sC''
            \<lparr>userId = ''C'', socket_user = carol, rooms = {''sC''}\<rparr> empty_send live) = Inr ()
   \<and> step Message_schema (at 10) (Frame ''sC'' (SendMessage empty_send)) live =
        (live, [\<lparr>recipients = [''sC''], payload = ErrorFrame ''Chat not found''\<rparr>])"
  by (simp add: invalid_send_def empty_send_def handler_defs demo_defs Let_def)

lemma invalid_send_fails_validation:
  "invalid_send data \<Longrightarrow> \<not> validator Message_schema (new_Message Message_schema e k data)"
  by (auto simp add: invalid_send_def Message_schema_def new_Message_def)

text \<open>
  Claim C4 as amended: every send with empty content, content over 1000 characters or an
  unrecognized type ends with one \<open>error\<close> frame to the sending socket alone and leaves
  the whole state as it was, so nothing is stored and nothing is broadcast. When the
  lookup answers and the sender is a participant, the rejection is the ValidationError
  that the schema raises at \<open>save\<close>, reported as \<open>'Failed to send message'\<close>; when the
  lookup answers and the sender is not a participant, it is \<open>'Chat not found'\<close>.
\<close>

theorem invalid_send_rejected:
  assumes conn: "map_of (sockets s) i = Some k"
    and inv: "invalid_send data"
  shows "step Message_schema e (Frame i (SendMessage data)) s =
           (s, [\<lparr>recipients = [i],
                 payload = ErrorFrame
                   (if ChatFindOne \<notin> failing e \<and> \<not> is_participant s (sd_chatId data) (userId k)
                    then ''Chat not found'' else ''Failed to send message'')\<rparr>])
       \<and> (ChatFindOne \<notin> failing e \<and> is_participant s (sd_chatId data) (userId k)
            \<longrightarrow> fst (sendMessage_try Message_schema e i k data s) = Inl ValidationError)"
  using conn invalid_send_fails_validation [OF inv, of e k]
  by (simp add: sendMessage_def sendMessage_try_def socket_emit_def is_participant_def
      Chat_findOne_def Let_def split: option.splits)

text \<open>Claim C4 as amended, at the state \<open>live\<close>: B, who is in \<open>c1\<close>, sends empty content.\<close>

theorem invalid_send_rejected_witness:
  "map_of (sockets live) ''sB''
     = Some \<lparr>userId = ''B'', socket_user = bob, rooms = {''c1'', ''sB''}\<rparr>
   \<and> invalid_send empty_send
   \<and> ChatFindOne \<notin> failing (at 10) \<and> is_participant live ''c1'' ''B''
   \<and> step Message_schema (at 10) (Frame ''sB'' (SendMessage empty_send)) live =
        (live, [\<lparr>recipients = [''sB''], payload = ErrorFrame ''Failed to send message''\<rparr>])
   \<and> fst (sendMessage_try Message_schema (at 10) ''sB''
            \<lparr>userId = ''B'', socket_user = bob, rooms = {''c1'', ''sB''}\<rparr> empty_send live)
       = Inl ValidationError"
  using invalid_send_rejected [of live "''sB''"
      "\<lparr>userId = ''B'', socket_user = bob, rooms = {''c1'', ''sB''}\<rparr>" empty_send "at 10"]
  by (simp add: live_def is_participant_def at_def empty_send_def invalid_send_def)

subsection \<open>Typing indicators\<close>

lemma run_silence: "run sch (silence xs) s = (s, [])"
  by (induction xs) (simp_all add: silence_def)

text \<open>
  Claim C5 says that after a \<open>typing\<close> frame with \<open>isTyping = true\<close> the server itself
  broadcasts the negative state once when the expiry deadline passes without a further
  frame. The handler keeps no typing state and the file sets no timer. In the run
  \<open>typing_then_silence\<close>, A starts typing and five seconds pass: no \<open>userTyping\<close> event
  with \<open>isTyping = false\<close> is emitted, and B has received the positive state only.
\<close>

theorem typing_then_silence_no_false:
  "TYPING_TIMEOUT < 5000
   \<and> count_events is_typing_false (snd (run Message_schema typing_then_silence live)) = 0
   \<and> delivered ''sB'' (snd (run Message_schema typing_then_silence live)) =
        [UserTyping ''A'' ''alice'' True]"
  by (simp add: typing_then_silence_def TYPING_TIMEOUT_def handler_defs demo_defs
      count_events_def delivered_def)

text \<open>
  What one step emits in negative typing states: a \<open>typing\<close> frame with
  \<open>isTyping = false\<close> from a connected socket gives one, and no other step gives any.
\<close>

lemma sendMessage_no_typing:
  "count_events is_typing_false (snd (sendMessage sch e i k data s)) = 0"
  by (simp add: sendMessage_def sendMessage_try_def Let_def count_events_def socket_emit_def
      io_to_def split: option.splits)

lemma dispatch_typing_count:
  "count_events is_typing_false (snd (dispatch sch e i k f s))
     = (case f of Typing c b \<Rightarrow> if b then 0 else 1 | _ \<Rightarrow> 0)"
proof (cases f)
  case (SendMessage d)
  then show ?thesis using sendMessage_no_typing [of sch e i k d s] by simp
qed (simp_all add: joinChat_def leaveChat_def typing_def markAsRead_def markAsRead_try_def
      getOnlineUsers_def Let_def count_events_def socket_emit_def socket_to_def)

lemma step_typing_false_count:
  "count_events is_typing_false (snd (step sch e ev s))
     = (if typing_false_frame ev s then 1 else 0)"
proof (cases ev)
  case (Connect i decoded)
  then show ?thesis
    by (auto simp add: handleConnection_def Let_def count_events_def broadcast_emit_def
        split: sum.splits)
next
  case (Resume i)
  then show ?thesis
    by (cases "map_of (pending s) i")
      (simp_all add: handleConnection_resume_def Let_def count_events_def broadcast_emit_def
        split: stage.splits)
next
  case (Frame i f)
  show ?thesis
  proof (cases "map_of (sockets s) i")
    case None
    then have "i \<notin> fst ` set (sockets s)" by (simp add: map_of_eq_None_iff)
    then show ?thesis using Frame None
      by (cases f) (simp_all add: count_events_def)
  next
    case (Some k)
    then have "i \<in> fst ` set (sockets s)"
      by (metis map_of_eq_None_iff option.distinct(1))
    then show ?thesis using Frame Some dispatch_typing_count [of sch e i k f s]
      by (cases f) simp_all
  qed
next
  case (Disconnect i)
  then show ?thesis
    by (simp add: disconnect_def Let_def count_events_def broadcast_emit_def
        split: option.splits)
next
  case (Elapse n)
  then show ?thesis by (simp add: count_events_def)
qed

lemma run_typing_false_count:
  "count_events is_typing_false (snd (run sch tr s)) = count_steps typing_false_frame sch tr s"
  by (rule run_count) (rule step_typing_false_count)

text \<open>
  Claim C5 as amended: the server relays and keeps nothing. An explicit \<open>typing\<close> frame
  with \<open>isTyping = false\<close> is broadcast exactly once, as a \<open>userTyping\<close> event with the
  negative state, to the other sockets in the room, and changes no state; after a frame
  with \<open>isTyping = true\<close>, however much time passes without a further frame, the
  positive broadcast stays the only event: the server emits nothing on expiry. In every
  run the negative states emitted are as many as the explicit frames that carry one.
\<close>

theorem typing_relayed_no_expiry:
  assumes conn: "map_of (sockets s) i = Some k"
  shows "step sch e (Frame i (Typing c False)) s =
           (s, [socket_to s i c (UserTyping (userId k) (username (socket_user k)) False)])
       \<and> run sch ((e, Frame i (Typing c True)) # silence xs) s =
           (s, [socket_to s i c (UserTyping (userId k) (username (socket_user k)) True)])
       \<and> count_events is_typing_false (snd (run sch tr s0))
           = count_steps typing_false_frame sch tr s0"
  using conn run_typing_false_count [of sch tr s0] by (simp add: typing_def run_silence)

text \<open>
  Claim C5 as amended, at the state \<open>live\<close>: A's first socket sends the negative state;
  it sends the positive state followed by five seconds of silence; and in a run in which
  it sends the positive and then the negative state before five seconds of silence, one
  negative state is emitted.
\<close>

theorem typing_relayed_no_expiry_witness:
  "map_of (sockets live) ''s1''
     = Some \<lparr>userId = ''A'', socket_user = alice, rooms = {''c1'', ''s1''}\<rparr>
   \<and> step Message_schema (at 11) (Frame ''s1'' (Typing ''c1'' False)) live =
        (live, [\<lparr>recipients = [''sB'', ''s2''], payload = UserTyping ''A'' ''alice'' False\<rparr>])
   \<and> run Message_schema
        ((at 10, Frame ''s1'' (Typing ''c1'' True)) # silence [(at 1010, 1000), (at 5010, 4000)])
        live =
        (live, [\<lparr>recipients = [''sB'', ''s2''], payload = UserTyping ''A'' ''alice'' True\<rparr>])
   \<and> count_events is_typing_false
        (snd (run Message_schema
                [(at 10, Frame ''s1'' (Typing ''c1'' True)),
                 (at 500, Frame ''s1'' (Typing ''c1'' False)),
                 (at 5500, Elapse 5000)]
                live)) = 1"
proof -
  have frames: "count_steps typing_false_frame Message_schema
                [(at 10, Frame ''s1'' (Typing ''c1'' True)),
                 (at 500, Frame ''s1'' (Typing ''c1'' False)),
                 (at 5500, Elapse 5000)]
                live = 1"
    by (simp add: handler_defs demo_defs)
  show ?thesis
    using frames
      typing_relayed_no_expiry [of live "''s1''"
        "\<lparr>userId = ''A'', socket_user = alice, rooms = {''c1'', ''s1''}\<rparr>"
        Message_schema "at 11" "''c1''" "[(at 1010, 1000), (at 5010, 4000)]"
        "[(at 10, Frame ''s1'' (Typing ''c1'' True)),
          (at 500, Frame ''s1'' (Typing ''c1'' False)),
          (at 5500, Elapse 5000)]" live]
      typing_relayed_no_expiry [of live "''s1''"
        "\<lparr>userId = ''A'', socket_user = alice, rooms = {''c1'', ''s1''}\<rparr>"
        Message_schema "at 10" "''c1''" "[(at 1010, 1000), (at 5010, 4000)]" "[]" live]
    by (simp add: live_def alice_def typing_def socket_to_def room_members_def open_pending_def)
qed

text \<open>
  Claim C6 says that none of the typing user's own connections receives the
  \<open>userTyping\<close> event. \<open>socket.to(chatId)\<close> leaves out the sending socket only: when A's
  first socket sends a \<open>typing\<close> frame for \<open>c1\<close>, A's second socket, which is in the
  room, receives the event.
\<close>

theorem typing_reaches_own_second_device:
  "map_option userId (map_of (sockets live) ''s1'') = Some ''A''
   \<and> map_option userId (map_of (sockets live) ''s2'') = Some ''A''
   \<and> delivered ''s2'' (snd (step Message_schema (at 10) (Frame ''s1'' (Typing ''c1'' True)) live))
       = [UserTyping ''A'' ''alice'' True]"
  by (simp add: handler_defs demo_defs delivered_def)

text \<open>
  Claim C6 as amended: for every \<open>typing\<close> frame, the \<open>userTyping\<close> event is delivered
  once to every socket in the room except the one socket that sent the frame, and to
  nobody else; the sending socket never receives it, other connections of the same user
  that are in the room do.
\<close>

theorem typing_excludes_sending_socket_only:
  assumes conn: "map_of (sockets s) i = Some k"
  shows "delivered j (snd (step sch e (Frame i (Typing c b)) s)) =
           (if j \<in> set (room_members s c) \<and> j \<noteq> i
            then [UserTyping (userId k) (username (socket_user k)) b] else [])"
  using conn by (auto simp add: typing_def delivered_def socket_to_def)

text \<open>
  Claim C6 as amended, at the state \<open>live\<close>: A's second socket receives the event of A's
  first socket, which receives nothing.
\<close>

theorem typing_excludes_sending_socket_only_witness:
  "map_of (sockets live) ''s1''
     = Some \<lparr>userId = ''A'', socket_user = alice, rooms = {''c1'', ''s1''}\<rparr>
   \<and> delivered ''s2'' (snd (step Message_schema (at 10) (Frame ''s1'' (Typing ''c1'' True)) live))
       = [UserTyping ''A'' ''alice'' True]
   \<and> delivered ''s1'' (snd (step Message_schema (at 10) (Frame ''s1'' (Typing ''c1'' True)) live))
       = []"
  using typing_excludes_sending_socket_only [of live "''s1''"
      "\<lparr>userId = ''A'', socket_user = alice, rooms = {''c1'', ''s1''}\<rparr>"
      "''s2''" Message_schema "at 10" "''c1''" True]
    typing_excludes_sending_socket_only [of live "''s1''"
      "\<lparr>userId = ''A'', socket_user = alice, rooms = {''c1'', ''s1''}\<rparr>"
      "''s1''" Message_schema "at 10" "''c1''" True]
  by (simp add: live_def alice_def room_members_def open_pending_def)

subsection \<open>Successful sends\<close>

lemma sendMessage_try_emits_NewMessage:
  assumes "NewMessage m msg p \<in> payload ` set (snd (snd (sendMessage_try sch e i k data s)))"
  shows "m = length (messages s) \<and> msg = new_Message sch e k data
       \<and> messages (fst (snd (sendMessage_try sch e i k data s))) = messages s @ [msg]"
  using assms
  by (auto simp add: sendMessage_try_def Let_def socket_emit_def io_to_def
      split: if_splits option.splits)

lemma sendMessage_emits_NewMessage:
  assumes "NewMessage m msg p \<in> payload ` set (snd (sendMessage sch e i k data s))"
  shows "m = length (messages s) \<and> msg = new_Message sch e k data
       \<and> messages (fst (sendMessage sch e i k data s)) = messages s @ [msg]"
proof -
  obtain r s' ems where t: "sendMessage_try sch e i k data s = (r, s', ems)"
    by (cases "sendMessage_try sch e i k data s") auto
  have "NewMessage m msg p \<in> payload ` set ems"
    using assms t by (cases r) (auto simp add: sendMessage_def socket_emit_def)
  then have "m = length (messages s) \<and> msg = new_Message sch e k data
       \<and> messages s' = messages s @ [msg]"
    using sendMessage_try_emits_NewMessage [of m msg p sch e i k data s] t by simp
  then show ?thesis using t by (cases r) (simp_all add: sendMessage_def)
qed

text \<open>
  Claim C7: whenever a send ends in a \<open>newMessage\<close> broadcast, the message of that frame
  is the one document the handler has appended to the stored messages, its sender is the
  sending socket's identity, and its \<open>readBy\<close> has exactly one entry: the sender, with the
  time at which the handler built the document. The handler writes the entry without a
  \<open>readAt\<close>; the time comes from the schema's default.
\<close>

theorem sent_message_readBy_sender_only:
  assumes conn: "map_of (sockets s) i = Some k"
    and sent: "NewMessage m msg p
                 \<in> payload ` set (snd (step Message_schema e (Frame i (SendMessage data)) s))"
  shows "messages (fst (step Message_schema e (Frame i (SendMessage data)) s)) = messages s @ [msg]
       \<and> m = length (messages s)
       \<and> sender msg = userId k
       \<and> readBy msg = [\<lparr>user = userId k, readAt = Some (now e)\<rparr>]"
  using conn sent sendMessage_emits_NewMessage [of m msg p Message_schema e i k data s]
  by (simp add: new_Message_def Message_schema_def)

text \<open>Claim C7 at the state \<open>live\<close>: A's first socket sends "hi" into \<open>c1\<close> at time 10.\<close>

theorem sent_message_readBy_sender_only_witness:
  "map_of (sockets live) ''s1''
     = Some \<lparr>userId = ''A'', socket_user = alice, rooms = {''c1'', ''s1''}\<rparr>
   \<and> NewMessage 0
        \<lparr>chat = ''c1'', sender = ''A'', content = ''hi'', messageType = ''text'',
         readBy = [\<lparr>user = ''A'', readAt = Some 10\<rparr>]\<rparr>
        (Some \<lparr>ps_id = ''A'', ps_username = ''alice'', ps_avatar = ''a.png''\<rparr>)
       \<in> payload ` set (snd (step Message_schema (at 10) (Frame ''s1'' (SendMessage hi)) live))
   \<and> messages (fst (step Message_schema (at 10) (Frame ''s1'' (SendMessage hi)) live)) =
        [\<lparr>chat = ''c1'', sender = ''A'', content = ''hi'', messageType = ''text'',
          readBy = [\<lparr>user = ''A'', readAt = Some 10\<rparr>]\<rparr>]"
proof -
  have conn: "map_of (sockets live) ''s1''
     = Some \<lparr>userId = ''A'', socket_user = alice, rooms = {''c1'', ''s1''}\<rparr>"
    by (simp add: live_def)
  have sent: "NewMessage 0
        \<lparr>chat = ''c1'', sender = ''A'', content = ''hi'', messageType = ''text'',
         readBy = [\<lparr>user = ''A'', readAt = Some 10\<rparr>]\<rparr>
        (Some \<lparr>ps_id = ''A'', ps_username = ''alice'', ps_avatar = ''a.png''\<rparr>)
       \<in> payload ` set (snd (step Message_schema (at 10) (Frame ''s1'' (SendMessage hi)) live))"
    by (simp add: hi_def handler_defs demo_defs Let_def)
  show ?thesis
    using conn sent sent_message_readBy_sender_only [OF conn sent]
    by (simp add: live_def)
qed

subsection \<open>Rooms\<close>

lemma room_members_iff:
  "j \<in> set (room_members s c) \<longleftrightarrow>
     (\<exists>k. (j, k) \<in> set (sockets s) \<and> c \<in> rooms k) \<or> (j = c \<and> j \<in> set (open_pending s))"
  by (force simp add: room_members_def)

lemma open_pending_socket_join: "open_pending (socket_join i c s) = open_pending s"
  by (simp add: socket_join_def open_pending_def)

lemma map_entry_join_member:
  "map_of xs i = Some k \<Longrightarrow>
   (i, k\<lparr>rooms := insert c (rooms k)\<rparr>)
     \<in> set (AList.map_entry i (\<lambda>x. x\<lparr>rooms := insert c (rooms x)\<rparr>) xs)"
  by (induction xs) (auto split: if_splits)

lemma map_entry_join_keeps:
  "(j, k) \<in> set xs \<Longrightarrow> c' \<in> rooms k \<Longrightarrow>
   \<exists>k'. (j, k') \<in> set (AList.map_entry i (\<lambda>x. x\<lparr>rooms := insert c (rooms x)\<rparr>) xs)
        \<and> c' \<in> rooms k'"
  by (induction xs) (auto split: if_splits)

lemma socket_join_member:
  "map_of (sockets s) i = Some k \<Longrightarrow> i \<in> set (room_members (socket_join i c s) c)"
  unfolding room_members_iff open_pending_socket_join
  using map_entry_join_member [of "sockets s" i k c]
  by (auto simp add: socket_join_def)

lemma socket_join_keeps:
  "j \<in> set (room_members s c') \<Longrightarrow> j \<in> set (room_members (socket_join i c s) c')"
  unfolding room_members_iff open_pending_socket_join
  using map_entry_join_keeps [of j _ "sockets s" c' i c]
  by (auto simp add: socket_join_def)

lemma map_of_socket_join:
  "map_of (sockets s) i = Some k \<Longrightarrow>
   map_of (sockets (socket_join i c s)) i = Some (k\<lparr>rooms := insert c (rooms k)\<rparr>)"
  by (simp add: socket_join_def map_of_map_entry)

lemma fold_join_keeps:
  "j \<in> set (room_members s c') \<Longrightarrow>
   j \<in> set (room_members (fold (\<lambda>c. socket_join i (fst c)) cs s) c')"
  by (induction cs arbitrary: s) (simp_all add: socket_join_keeps)

lemma fold_join_connected:
  "map_of (sockets s) i = Some k \<Longrightarrow>
   \<exists>k'. map_of (sockets (fold (\<lambda>c. socket_join i (fst c)) cs s)) i = Some k'"
proof (induction cs arbitrary: s k)
  case Nil
  then show ?case by simp
next
  case (Cons c cs)
  from Cons.prems have "map_of (sockets (socket_join i (fst c) s)) i
      = Some (k\<lparr>rooms := insert (fst c) (rooms k)\<rparr>)"
    by (rule map_of_socket_join)
  from Cons.IH [OF this] show ?case by simp
qed

lemma fold_join_member:
  "map_of (sockets s) i = Some k \<Longrightarrow> c \<in> fst ` set cs \<Longrightarrow>
   i \<in> set (room_members (fold (\<lambda>c. socket_join i (fst c)) cs s) c)"
proof (induction cs arbitrary: s k)
  case Nil
  then show ?case by simp
next
  case (Cons x cs)
  have next_conn: "map_of (sockets (socket_join i (fst x) s)) i
      = Some (k\<lparr>rooms := insert (fst x) (rooms k)\<rparr>)"
    using Cons.prems(1) by (rule map_of_socket_join)
  show ?case
  proof (cases "c = fst x")
    case True
    have "i \<in> set (room_members (socket_join i c s) c)"
      using Cons.prems(1) by (rule socket_join_member)
    then show ?thesis using True by (simp add: fold_join_keeps)
  next
    case False
    then have "c \<in> fst ` set cs" using Cons.prems(2) by auto
    from Cons.IH [OF next_conn this] show ?thesis by simp
  qed
qed

text \<open>
  The auto-join of the connection callback: when the callback of a socket that is still
  connected runs to its end, the socket is in the room of every conversation its identity
  participates in.
\<close>

lemma handleConnection_joins_own_chats:
  assumes fresh: "i \<notin> fst ` set (sockets s)"
    and stage: "p_stage p = AwaitingFind"
    and still: "p_open p"
    and found: "ChatFind \<notin> failing e"
    and part: "is_participant s c (p_userId p)"
  shows "i \<in> set (room_members (fst (handleConnection_resume e i p s)) c)"
proof -
  obtain ch where ch: "map_of (chats s) c = Some ch" "p_userId p \<in> set (participants ch)"
    using part by (auto simp add: is_participant_def split: option.splits)
  then have "(c, ch) \<in> set (chats s)" by (simp add: map_of_SomeD)
  then have mem: "c \<in> fst ` set (Chat_find (p_userId p) (chats s))"
    using ch(2) by (force simp add: Chat_find_def)
  have "map_of (sockets s) i = None" using fresh by (simp add: map_of_eq_None_iff)
  then have conn:
    "map_of (sockets s @ [(i, \<lparr>userId = p_userId p, socket_user = p_user p, rooms = {i}\<rparr>)]) i
      = Some \<lparr>userId = p_userId p, socket_user = p_user p, rooms = {i}\<rparr>"
    by (simp add: map_add_def)
  show ?thesis
    using fold_join_member [of _ i _ c "Chat_find (p_userId p) (chats s)", OF _ mem]
      conn stage still found
    by (simp add: handleConnection_resume_def Let_def)
qed

lemma sendMessage_success:
  assumes part: "is_participant s (sd_chatId data) (userId k)"
    and valid: "validator sch (new_Message sch e k data)"
    and ok: "failing e = {}"
  shows "snd (sendMessage sch e i k data s) =
           [\<lparr>recipients = room_members s (sd_chatId data),
             payload = NewMessage (length (messages s)) (new_Message sch e k data)
                         (populate (users s) (userId k))\<rparr>]"
proof -
  obtain ch where "Chat_findOne (sd_chatId data) (userId k) (chats s) = Some ch"
    using part by (auto simp add: is_participant_def Chat_findOne_def split: option.splits)
  then show ?thesis
    using valid ok
    by (simp add: sendMessage_def sendMessage_try_def Let_def io_to_def room_members_def
        open_pending_def)
qed

text \<open>
  Claim C8: when the sender is a participant, the document passes the schema's validation
  and every storage call answers, each socket receives the \<open>newMessage\<close> frame, with the
  sender's user name and avatar attached, exactly if it is in the conversation's room.
  Nobody is left out: the sending socket and the sender's other connections receive the
  frame when they are in the room, where the auto-join of the connection callback
  (\<open>handleConnection_joins_own_chats\<close>) has put them.
\<close>

theorem newMessage_reaches_whole_room:
  assumes conn: "map_of (sockets s) i = Some k"
    and part: "is_participant s (sd_chatId data) (userId k)"
    and valid: "validator sch (new_Message sch e k data)"
    and ok: "failing e = {}"
    and usr: "map_of (users s) (userId k) = Some d"
  shows "delivered j (snd (step sch e (Frame i (SendMessage data)) s)) =
           (if j \<in> set (room_members s (sd_chatId data))
            then [NewMessage (length (messages s)) (new_Message sch e k data)
                    (Some \<lparr>ps_id = userId k, ps_username = username d, ps_avatar = avatar d\<rparr>)]
            else [])"
  using conn usr sendMessage_success [OF part valid ok, of i]
  by (simp add: delivered_def populate_def)

text \<open>
  Claim C8 at the state \<open>live\<close>: A's first socket sends "hi" into \<open>c1\<close>, and A's second
  socket receives the frame.
\<close>

theorem newMessage_reaches_whole_room_witness:
  "map_of (sockets live) ''s1''
     = Some \<lparr>userId = ''A'', socket_user = alice, rooms = {''c1'', ''s1''}\<rparr>
   \<and> is_participant live ''c1'' ''A''
   \<and> validator Message_schema
        (new_Message Message_schema (at 10)
           \<lparr>userId = ''A'', socket_user = alice, rooms = {''c1'', ''s1''}\<rparr> hi)
   \<and> failing (at 10) = {}
   \<and> map_of (users live) ''A'' = Some (alice\<lparr>isOnline := True, lastSeen := 3\<rparr>)
   \<and> ''s2'' \<in> set (room_members live ''c1'')
   \<and> delivered ''s2'' (snd (step Message_schema (at 10) (Frame ''s1'' (SendMessage hi)) live)) =
        [NewMessage 0
           \<lparr>chat = ''c1'', sender = ''A'', content = ''hi'', messageType = ''text'',
            readBy = [\<lparr>user = ''A'', readAt = Some 10\<rparr>]\<rparr>
           (Some \<lparr>ps_id = ''A'', ps_username = ''alice'', ps_avatar = ''a.png''\<rparr>)]"
  using newMessage_reaches_whole_room [of live "''s1''"
      "\<lparr>userId = ''A'', socket_user = alice, rooms = {''c1'', ''s1''}\<rparr>" hi Message_schema
      "at 10" "alice\<lparr>isOnline := True, lastSeen := 3\<rparr>" "''s2''"]
  by (simp add: live_def is_participant_def at_def hi_def alice_def new_Message_def
      Message_schema_def MESSAGE_TYPES_def MESSAGE_MAX_LENGTH_def send_type_def room_members_def
      open_pending_def)

text \<open>
  Claim C9: a \<open>joinChat\<close> frame of a connected socket puts the socket into the named
  room, whatever the room and whoever the identity: nothing is looked up and nothing is
  emitted. From then on the socket is among the recipients of every broadcast to that
  room.
\<close>

theorem joinChat_without_participant_check:
  assumes conn: "map_of (sockets s) i = Some k"
  shows "snd (step sch e (Frame i (JoinChat c)) s) = []
       \<and> map_of (sockets (fst (step sch e (Frame i (JoinChat c)) s))) i
           = Some (k\<lparr>rooms := insert c (rooms k)\<rparr>)
       \<and> i \<in> set (room_members (fst (step sch e (Frame i (JoinChat c)) s)) c)
       \<and> (\<forall>f. i \<in> set (recipients (io_to (fst (step sch e (Frame i (JoinChat c)) s)) c f)))"
  using conn map_of_socket_join [OF conn, of c] socket_join_member [OF conn, of c]
  by (simp add: joinChat_def io_to_def)

text \<open>
  Claim C9 at the state \<open>live\<close>: C, who is not a participant of \<open>c1\<close>, joins its room
  and then receives the message that A sends into it.
\<close>

theorem joinChat_without_participant_check_witness:
  "map_of (sockets live) ''sC'' = Some \<lparr>userId = ''C'', socket_user = carol, rooms = {''sC''}\<rparr>
   \<and> \<not> is_participant live ''c1'' ''C''
   \<and> ''sC'' \<in> set (room_members (fst (step Message_schema (at 5) (Frame ''sC'' (JoinChat ''c1'')) live)) ''c1'')
   \<and> delivered ''sC''
        (snd (run Message_schema
                [(at 5, Frame ''sC'' (JoinChat ''c1'')), (at 10, Frame ''s1'' (SendMessage hi))]
                live)) =
        [NewMessage 0
           \<lparr>chat = ''c1'', sender = ''A'', content = ''hi'', messageType = ''text'',
            readBy = [\<lparr>user = ''A'', readAt = Some 10\<rparr>]\<rparr>
           (Some \<lparr>ps_id = ''A'', ps_username = ''alice'', ps_avatar = ''a.png''\<rparr>)]"
proof -
  have conn: "map_of (sockets live) ''sC''
      = Some \<lparr>userId = ''C'', socket_user = carol, rooms = {''sC''}\<rparr>"
    by (simp add: live_def)
  have out: "\<not> is_participant live ''c1'' ''C''"
    by (simp add: live_def is_participant_def)
  have later: "delivered ''sC''
        (snd (run Message_schema
                [(at 5, Frame ''sC'' (JoinChat ''c1'')), (at 10, Frame ''s1'' (SendMessage hi))]
                live)) =
        [NewMessage 0
           \<lparr>chat = ''c1'', sender = ''A'', content = ''hi'', messageType = ''text'',
            readBy = [\<lparr>user = ''A'', readAt = Some 10\<rparr>]\<rparr>
           (Some \<lparr>ps_id = ''A'', ps_username = ''alice'', ps_avatar = ''a.png''\<rparr>)]"
    by (simp add: hi_def handler_defs demo_defs delivered_def Let_def)
  show ?thesis
    using conn out later
      joinChat_without_participant_check [OF conn, of Message_schema "at 5" "''c1''"]
    by simp
qed

subsection \<open>Read receipts are broadcast unchecked\<close>

text \<open>
  Claim C10: whenever the storage update of \<open>markAsRead\<close> does not throw, exactly one
  \<open>messageRead\<close> event is emitted, to the sockets of the named room except the sending
  one, carrying the given message id, the sender's identity and a second reading of the
  clock. No hypothesis relates the message id to the stored messages or to the room: when
  no message has the id the state stays as it was and the event is emitted all the same.
\<close>

theorem markAsRead_broadcast_unchecked:
  assumes conn: "map_of (sockets s) i = Some k"
    and ok: "MessageFindByIdAndUpdate \<notin> failing e"
  shows "snd (step sch e (Frame i (MarkAsRead m c)) s) =
           [\<lparr>recipients = filter (\<lambda>j. j \<noteq> i) (room_members s c),
             payload = MessageRead m (userId k) (now2 e)\<rparr>]
       \<and> (length (messages s) \<le> m \<longrightarrow> fst (step sch e (Frame i (MarkAsRead m c)) s) = s)"
  using conn ok
  by (simp add: markAsRead_def markAsRead_try_def Let_def socket_to_def room_members_def
      open_pending_def Message_findByIdAndUpdate_def)

text \<open>
  Claim C10 at the state \<open>live\<close>, where no message is stored: B marks message 7 as read
  in \<open>c1\<close>.
\<close>

theorem markAsRead_broadcast_unchecked_witness:
  "map_of (sockets live) ''sB''
     = Some \<lparr>userId = ''B'', socket_user = bob, rooms = {''c1'', ''sB''}\<rparr>
   \<and> MessageFindByIdAndUpdate \<notin> failing \<lparr>now = 20, now2 = 21, failing = {}\<rparr>
   \<and> length (messages live) \<le> 7
   \<and> step Message_schema \<lparr>now = 20, now2 = 21, failing = {}\<rparr>
        (Frame ''sB'' (MarkAsRead 7 ''c1'')) live =
        (live, [\<lparr>recipients = [''s1'', ''s2''], payload = MessageRead 7 ''B'' 21\<rparr>])"
  using markAsRead_broadcast_unchecked [of live "''sB''"
      "\<lparr>userId = ''B'', socket_user = bob, rooms = {''c1'', ''sB''}\<rparr>"
      "\<lparr>now = 20, now2 = 21, failing = {}\<rparr>" Message_schema 7 "''c1''"]
  by (simp add: live_def room_members_def open_pending_def prod_eq_iff)

end
